theory Spec2Isabelle
  imports Complex_Main "HOL-Library.Sublist" "HOL-Library.Multiset"
begin

section \<open>Python strings\<close>

text \<open>
  A Python \<^verbatim>\<open>str\<close> is a sequence of Unicode code points, and slicing, \<^verbatim>\<open>strip\<close>
  and \<^verbatim>\<open>split\<close> count code points, not bytes. A string is therefore a list of code
  points, each a natural number; \<open>str\<close> turns an ASCII literal into one.
\<close>

type_synonym pystr = "nat list"

definition str :: "string \<Rightarrow> pystr" where
  "str s = map of_char s"

text \<open>\<^verbatim>\<open>pat in s\<close>: \<open>pat\<close> occurs in \<open>s\<close> as a contiguous run.\<close>

fun py_in :: "pystr \<Rightarrow> pystr \<Rightarrow> bool" where
  "py_in pat [] = (pat = [])"
| "py_in pat (c # cs) = (prefix pat (c # cs) \<or> py_in pat cs)"

text \<open>\<^verbatim>\<open>s.startswith(p)\<close>.\<close>

definition startswith :: "pystr \<Rightarrow> pystr \<Rightarrow> bool" where
  "startswith s p = prefix p s"

text \<open>
  \<^verbatim>\<open>str.isspace\<close> of one code point: the code points CPython treats as whitespace
  (bidirectional class WS, B or S, or category Zs).
\<close>

definition py_isspace :: "nat \<Rightarrow> bool" where
  "py_isspace c =
     ((9 \<le> c \<and> c \<le> 13) \<or> (28 \<le> c \<and> c \<le> 32) \<or> c = 133 \<or> c = 160 \<or> c = 5760
      \<or> (8192 \<le> c \<and> c \<le> 8202) \<or> c = 8232 \<or> c = 8233 \<or> c = 8239 \<or> c = 8287
      \<or> c = 12288)"

text \<open>\<^verbatim>\<open>s.strip()\<close>: whitespace removed at both ends.\<close>

definition strip :: "pystr \<Rightarrow> pystr" where
  "strip s = rev (dropWhile py_isspace (rev (dropWhile py_isspace s)))"

text \<open>
  \<^verbatim>\<open>s.split(sep)\<close> for a separator of one character: the pieces between the
  separators, always at least one piece.
\<close>

fun split_char :: "nat \<Rightarrow> pystr \<Rightarrow> pystr list" where
  "split_char sep [] = [[]]"
| "split_char sep (c # cs) =
     (if c = sep then [] # split_char sep cs
      else (case split_char sep cs of
              [] \<Rightarrow> [[c]]
            | piece # pieces \<Rightarrow> (c # piece) # pieces))"

text \<open>\<^verbatim>\<open>sep.join(xs)\<close>.\<close>

fun join :: "pystr \<Rightarrow> pystr list \<Rightarrow> pystr" where
  "join sep [] = []"
| "join sep [x] = x"
| "join sep (x # y # ys) = x @ sep @ join sep (y # ys)"

text \<open>
  \<^verbatim>\<open>s.lower()\<close>. The ASCII capitals go to their small letters. Two code points
  beyond ASCII have an ASCII letter in their lower case: U+212A (Kelvin sign) becomes
  \<^verbatim>\<open>k\<close> and U+0130 becomes \<^verbatim>\<open>i\<close> followed by U+0307. Every other code point
  beyond ASCII lowers to code points beyond ASCII; they are left as they are, which
  changes no test of the lowered text against an ASCII marker.
\<close>

definition lower_cp :: "nat \<Rightarrow> pystr" where
  "lower_cp c =
     (if 65 \<le> c \<and> c \<le> 90 then [c + 32]
      else if c = 8490 then [107]
      else if c = 304 then [105, 775]
      else [c])"

definition lower :: "pystr \<Rightarrow> pystr" where
  "lower s = concat (map lower_cp s)"

section \<open>Caption cleaner\<close>

text \<open>
  \<^verbatim>\<open>re.sub(r'<[^>]+>', '', line)\<close>. A match starts at a \<^verbatim>\<open><\<close> whose next
  character exists and is not \<^verbatim>\<open>></\<close>, with a \<^verbatim>\<open>></\<close> somewhere after it, and
  runs to the first such \<^verbatim>\<open>></\<close>; the scan goes on after the match.
\<close>

definition tag_here :: "pystr \<Rightarrow> bool" where
  "tag_here cs = (cs \<noteq> [] \<and> hd cs \<noteq> 62 \<and> 62 \<in> set cs)"

function strip_tags :: "pystr \<Rightarrow> pystr" where
  "strip_tags [] = []"
| "strip_tags (c # cs) =
     (if c = 60 \<and> tag_here cs then strip_tags (tl (dropWhile (\<lambda>x. x \<noteq> 62) cs))
      else c # strip_tags cs)"
  by pat_completeness auto
termination
proof (relation "measure length")
  show "wf (measure length)" by simp
next
  fix c :: nat and cs :: pystr
  have "length (dropWhile (\<lambda>x. x \<noteq> 62) cs) \<le> length cs"
    by (rule length_dropWhile_le)
  then show "(tl (dropWhile (\<lambda>x. x \<noteq> 62) cs), c # cs) \<in> measure length"
    by simp
next
  fix c :: nat and cs :: pystr
  show "(cs, c # cs) \<in> measure length" by simp
qed

text \<open>
  \<^verbatim>\<open>re.sub(r'<\d{2}:\d{2}:\d{2}\.\d{3}>', '', clean)\<close>: a time code of fourteen
  characters. The digit class is given here by the ASCII digits; Python's \<^verbatim>\<open>\d\<close>
  also takes the other Unicode decimal digits, which makes no difference after
  \<open>strip_tags\<close> (lemma \<open>strip_timestamps_after_tags\<close>: nothing is left to match).
\<close>

definition py_isdigit :: "nat \<Rightarrow> bool" where
  "py_isdigit c = (48 \<le> c \<and> c \<le> 57)"

definition timestamp_here :: "pystr \<Rightarrow> bool" where
  "timestamp_here s =
     (14 \<le> length s \<and> s ! 0 = 60
      \<and> py_isdigit (s ! 1) \<and> py_isdigit (s ! 2) \<and> s ! 3 = 58
      \<and> py_isdigit (s ! 4) \<and> py_isdigit (s ! 5) \<and> s ! 6 = 58
      \<and> py_isdigit (s ! 7) \<and> py_isdigit (s ! 8) \<and> s ! 9 = 46
      \<and> py_isdigit (s ! 10) \<and> py_isdigit (s ! 11) \<and> py_isdigit (s ! 12)
      \<and> s ! 13 = 62)"

fun strip_timestamps :: "pystr \<Rightarrow> pystr" where
  "strip_timestamps [] = []"
| "strip_timestamps (c # cs) =
     (if timestamp_here (c # cs) then strip_timestamps (drop 13 cs)
      else c # strip_timestamps cs)"

text \<open>
  \<^verbatim>\<open>clean_vtt_content\<close> of \<^verbatim>\<open>app.py\<close>. The loop over the lines carries
  \<^verbatim>\<open>text_lines\<close> and the set \<^verbatim>\<open>seen\<close>.
\<close>

definition skip_line :: "pystr \<Rightarrow> bool" where
  "skip_line line =
     (strip line = [] \<or> startswith line (str ''WEBVTT'') \<or> py_in (str ''-->'') line
      \<or> startswith line (str ''Kind:'') \<or> startswith line (str ''Language:'')
      \<or> startswith line (str ''NOTE''))"

definition clean_line :: "pystr \<Rightarrow> pystr" where
  "clean_line line = strip (strip_timestamps (strip_tags line))"

fun clean_loop :: "pystr list \<Rightarrow> pystr list \<Rightarrow> pystr set \<Rightarrow> pystr list" where
  "clean_loop [] text_lines seen = text_lines"
| "clean_loop (line # lines) text_lines seen =
     (if skip_line line then clean_loop lines text_lines seen
      else (let clean = clean_line line in
            if clean \<noteq> [] \<and> clean \<notin> seen
            then clean_loop lines (text_lines @ [clean]) (insert clean seen)
            else clean_loop lines text_lines seen))"

definition clean_vtt_content :: "pystr \<Rightarrow> pystr" where
  "clean_vtt_content vtt_content = join (str '' '') (clean_loop (split_char 10 vtt_content) [] {})"

text \<open>
  \<^verbatim>\<open>clean_vtt_content\<close> of \<^verbatim>\<open>yt_transcripts.py\<close>: the same tests, one
  \<^verbatim>\<open>continue\<close> after the other.
\<close>

definition skip_line_cli :: "pystr \<Rightarrow> bool" where
  "skip_line_cli line =
     (if strip line = [] then True
      else if startswith line (str ''WEBVTT'') then True
      else if startswith line (str ''Kind:'') \<or> startswith line (str ''Language:'') then True
      else if py_in (str ''-->'') line then True
      else if strip line = [] \<or> startswith line (str ''NOTE'') then True
      else False)"

fun clean_loop_cli :: "pystr list \<Rightarrow> pystr list \<Rightarrow> pystr set \<Rightarrow> pystr list" where
  "clean_loop_cli [] text_lines seen_lines = text_lines"
| "clean_loop_cli (line # lines) text_lines seen_lines =
     (if skip_line_cli line then clean_loop_cli lines text_lines seen_lines
      else (let clean_line = strip (strip_timestamps (strip_tags line)) in
            if clean_line \<noteq> [] \<and> clean_line \<notin> seen_lines
            then clean_loop_cli lines (text_lines @ [clean_line]) (insert clean_line seen_lines)
            else clean_loop_cli lines text_lines seen_lines))"

definition clean_vtt_content_cli :: "pystr \<Rightarrow> pystr" where
  "clean_vtt_content_cli vtt_content =
     join (str '' '') (clean_loop_cli (split_char 10 vtt_content) [] {})"

text \<open>
  A text holds an inline tag when some \<^verbatim>\<open><\<close> in it starts a match of
  \<^verbatim>\<open><[^>]+>\<close>.
\<close>

fun has_tag :: "pystr \<Rightarrow> bool" where
  "has_tag [] = False"
| "has_tag (c # cs) = ((c = 60 \<and> tag_here cs) \<or> has_tag cs)"

section \<open>Video descriptors, catalog listing and filter\<close>

text \<open>
  The dictionary of one video. A duration is a Python float or the integer 0; a finite
  float is a rational number and Python compares it with an integer by value, so the
  duration is a rational here. The floats that are no numbers (infinities, NaN) and the
  rounding of \<^verbatim>\<open>float()\<close> to binary are outside this model.
\<close>

record video =
  vid :: pystr
  title :: pystr
  duration :: rat
  views :: int
  url :: pystr

definition watch_url :: "pystr \<Rightarrow> pystr" where
  "watch_url video_id = str ''https://www.youtube.com/watch?v='' @ video_id"

text \<open>
  One line of the listing, \<^verbatim>\<open>%(id)s|%(title)s|%(duration)s|%(view_count)s\<close>.
  The built-ins \<^verbatim>\<open>float()\<close> and \<^verbatim>\<open>int()\<close> are parameters \<open>to_float\<close> and
  \<open>to_int\<close>, with \<open>None\<close> where they raise \<^verbatim>\<open>ValueError\<close>: the result is
  \<open>None\<close> where the loop goes to the next line.
\<close>

definition parse_line ::
  "(pystr \<Rightarrow> rat option) \<Rightarrow> (pystr \<Rightarrow> int option) \<Rightarrow> pystr \<Rightarrow> video option" where
  "parse_line to_float to_int line =
     (if line = [] \<or> \<not> py_in (str ''|'') line then None
      else (let parts = split_char 124 line in
            if 4 \<le> length parts then
              (case (if parts ! 2 \<noteq> str ''NA'' then to_float (parts ! 2) else Some 0) of
                 None \<Rightarrow> None
               | Some d \<Rightarrow>
                  (case (if parts ! 3 \<noteq> str ''NA'' then to_int (parts ! 3) else Some 0) of
                     None \<Rightarrow> None
                   | Some n \<Rightarrow>
                       Some \<lparr>vid = parts ! 0, title = parts ! 1, duration = d, views = n,
                             url = watch_url (parts ! 0)\<rparr>))
            else None))"

fun parse_lines ::
  "(pystr \<Rightarrow> rat option) \<Rightarrow> (pystr \<Rightarrow> int option) \<Rightarrow> pystr list \<Rightarrow> video list" where
  "parse_lines to_float to_int [] = []"
| "parse_lines to_float to_int (line # lines) =
     (case parse_line to_float to_int line of
        None \<Rightarrow> parse_lines to_float to_int lines
      | Some v \<Rightarrow> v # parse_lines to_float to_int lines)"

text \<open>
  \<^verbatim>\<open>list.sort(key=..., reverse=True)\<close>: descending, and stable (equal keys keep
  their order), which CPython gets by reversing, sorting stably and reversing again.
\<close>

definition sort_reverse :: "('a \<Rightarrow> 'k::linorder) \<Rightarrow> 'a list \<Rightarrow> 'a list" where
  "sort_reverse key xs = rev (sort_key key (rev xs))"

text \<open>
  \<^verbatim>\<open>get_channel_videos\<close> from the return of the external command on:
  \<open>stdout\<close> and \<open>code\<close> are what \<^verbatim>\<open>run_command\<close> gave. The version of
  \<^verbatim>\<open>yt_transcripts.py\<close> returns the list as parsed; the one of \<^verbatim>\<open>app.py\<close>
  sorts it when asked to.
\<close>

definition get_channel_videos ::
  "(pystr \<Rightarrow> rat option) \<Rightarrow> (pystr \<Rightarrow> int option) \<Rightarrow> pystr \<Rightarrow> int \<Rightarrow> video list" where
  "get_channel_videos to_float to_int stdout code =
     (if code \<noteq> 0 then [] else parse_lines to_float to_int (split_char 10 (strip stdout)))"

definition get_channel_videos_app ::
  "(pystr \<Rightarrow> rat option) \<Rightarrow> (pystr \<Rightarrow> int option) \<Rightarrow> pystr \<Rightarrow> int \<Rightarrow> pystr \<Rightarrow> video list" where
  "get_channel_videos_app to_float to_int stdout code sort_by =
     (if code \<noteq> 0 then []
      else (let videos = parse_lines to_float to_int (split_char 10 (strip stdout)) in
            if sort_by = str ''views'' then sort_reverse views videos else videos))"

text \<open>
  \<^verbatim>\<open>filter_videos\<close>. A threshold is an integer or \<^verbatim>\<open>None\<close>, and
  \<^verbatim>\<open>if max_duration_min:\<close> tests its truth value: \<^verbatim>\<open>None\<close> and 0 are false.
  The duration thresholds are in minutes.
\<close>

definition truthy :: "int option \<Rightarrow> bool" where
  "truthy x = (case x of None \<Rightarrow> False | Some n \<Rightarrow> n \<noteq> 0)"

definition filter_videos ::
  "video list \<Rightarrow> int option \<Rightarrow> int option \<Rightarrow> int option \<Rightarrow> pystr \<Rightarrow> video list" where
  "filter_videos videos max_duration_min min_duration_min min_views sort_by =
     (let filtered = videos;
          filtered = (if truthy max_duration_min
                      then filter (\<lambda>v. duration v \<le> of_int (the max_duration_min * 60)) filtered
                      else filtered);
          filtered = (if truthy min_duration_min
                      then filter (\<lambda>v. duration v \<ge> of_int (the min_duration_min * 60)) filtered
                      else filtered);
          filtered = (if truthy min_views
                      then filter (\<lambda>v. views v \<ge> the min_views) filtered
                      else filtered)
      in if sort_by = str ''views'' then sort_reverse views filtered
         else if sort_by = str ''duration'' then sort_reverse duration filtered
         else filtered)"

text \<open>
  The inclusive tests of the thresholds that are given: a video passes when it is no
  longer than the maximum, no shorter than the minimum and has no fewer views than the
  minimum.
\<close>

definition keeps :: "int option \<Rightarrow> int option \<Rightarrow> int option \<Rightarrow> video \<Rightarrow> bool" where
  "keeps max_duration_min min_duration_min min_views v =
     ((truthy max_duration_min \<longrightarrow> duration v \<le> of_int (the max_duration_min * 60))
      \<and> (truthy min_duration_min \<longrightarrow> of_int (the min_duration_min * 60) \<le> duration v)
      \<and> (truthy min_views \<longrightarrow> the min_views \<le> views v))"

section \<open>Temporary files and the single-video fetch\<close>

text \<open>
  The external tool leaves its output in files under \<^verbatim>\<open>/tmp\<close>. A file holds
  text, or bytes that are no UTF-8, on which \<^verbatim>\<open>open(...).read()\<close> raises. The
  file system is a map from paths to files, passed in and returned.
\<close>

datatype file_data = Text pystr | Undecodable

type_synonym files = "pystr \<rightharpoonup> file_data"

definition temp_file :: "pystr \<Rightarrow> pystr" where
  "temp_file video_id = str ''/tmp/yt_transcript_'' @ video_id"

text \<open>
  \<^verbatim>\<open>Path('/tmp').glob(f'yt_transcript_{video_id}*')\<close> for a video id without
  pattern characters: the entries of \<^verbatim>\<open>/tmp\<close> whose name starts with the prefix.
  The loop unlinks each of them.
\<close>

definition glob_match :: "pystr \<Rightarrow> pystr \<Rightarrow> bool" where
  "glob_match video_id path =
     (prefix (temp_file video_id) path
      \<and> 47 \<notin> set (drop (length (temp_file video_id)) path))"

definition cleanup :: "pystr \<Rightarrow> files \<Rightarrow> files" where
  "cleanup video_id fs = (\<lambda>path. if glob_match video_id path then None else fs path)"

text \<open>
  The third component of the tuple that \<^verbatim>\<open>get_video_transcript\<close> of
  \<^verbatim>\<open>app.py\<close> returns is a message: empty on success, otherwise one of five fixed
  texts followed by the start of \<^verbatim>\<open>stderr\<close>. A constructor stands for each fixed
  text and carries the piece of \<^verbatim>\<open>stderr\<close>.
\<close>

datatype fetch_msg =
    NoError
  | CaptchaMsg pystr
  | RateLimitMsg pystr
  | CookiesMsg pystr
  | JsChallengeMsg pystr
  | NotFoundMsg pystr

text \<open>
  The search for a caption file in \<^verbatim>\<open>app.py\<close>: for each candidate suffix in
  turn, a file that exists is read and removed, and its cleaned text returned when not
  empty; an exception while reading is swallowed and the search goes on. Removing a
  file that exists is taken to succeed.
\<close>

definition candidates_app :: "pystr list" where
  "candidates_app =
     concat (map (\<lambda>lang. [str ''.'' @ lang @ str ''.vtt'', str ''.vtt''])
                 [str ''ru'', str ''en''])"

fun locate_app :: "pystr list \<Rightarrow> pystr \<Rightarrow> files \<Rightarrow> pystr option \<times> files" where
  "locate_app [] tmp fs = (None, fs)"
| "locate_app (ext # exts) tmp fs =
     (case fs (tmp @ ext) of
        None \<Rightarrow> locate_app exts tmp fs
      | Some Undecodable \<Rightarrow> locate_app exts tmp fs
      | Some (Text content) \<Rightarrow>
          (let fs' = fs(tmp @ ext := None);
               transcript = clean_vtt_content content
           in if transcript \<noteq> [] then (Some transcript, fs')
              else locate_app exts tmp fs'))"

text \<open>
  \<^verbatim>\<open>get_video_transcript\<close> of \<^verbatim>\<open>app.py\<close> after its download loop:
  \<open>stderr\<close> and \<open>code\<close> are the diagnostic text and the exit code of the last
  download command, and \<open>fs\<close> the files at that moment; the code is not read again.
  The result is the tuple (id, transcript, error) and the files left. The title, the
  progress events and the elapsed time, which no result depends on, are left out.
\<close>

definition get_video_transcript_app ::
  "pystr \<Rightarrow> pystr \<Rightarrow> int \<Rightarrow> files \<Rightarrow> (pystr \<times> pystr \<times> fetch_msg) \<times> files" where
  "get_video_transcript_app video_id stderr code fs =
     (if py_in (str ''Sign in to confirm'') stderr \<or> py_in (str ''captcha'') (lower stderr)
      then ((video_id, [], CaptchaMsg (take 150 stderr)), fs)
      else if py_in (str ''rate limit'') (lower stderr) \<or> py_in (str ''429'') stderr
      then ((video_id, [], RateLimitMsg (take 150 stderr)), fs)
      else if py_in (str ''cookies'') (lower stderr) \<and> py_in (str ''error'') (lower stderr)
      then ((video_id, [], CookiesMsg (take 150 stderr)), fs)
      else if py_in (str ''found 0 sig function possibilities'') stderr
              \<or> py_in (str ''Signature solving failed'') stderr
              \<or> py_in (str ''n challenge solving failed'') stderr
              \<or> py_in (str ''Only images are available'') stderr
      then ((video_id, [], JsChallengeMsg (take 150 stderr)), fs)
      else (case locate_app candidates_app (temp_file video_id) fs of
              (Some transcript, fs') \<Rightarrow> ((video_id, transcript, NoError), fs')
            | (None, fs') \<Rightarrow>
                ((video_id, [], NotFoundMsg (take 100 stderr)), cleanup video_id fs')))"

text \<open>
  The outcome kinds of the specification, read off the returned tuple: each failure
  message is one kind, and a transcript without message is a success.
\<close>

datatype outcome_kind = Blocked | RateLimited | AuthFailure | ToolOutdated | NoCaptions | Success

fun outcome_of :: "pystr \<times> pystr \<times> fetch_msg \<Rightarrow> outcome_kind" where
  "outcome_of (video_id, transcript, CaptchaMsg e) = Blocked"
| "outcome_of (video_id, transcript, RateLimitMsg e) = RateLimited"
| "outcome_of (video_id, transcript, CookiesMsg e) = AuthFailure"
| "outcome_of (video_id, transcript, JsChallengeMsg e) = ToolOutdated"
| "outcome_of (video_id, transcript, NotFoundMsg e) = NoCaptions"
| "outcome_of (video_id, transcript, NoError) = Success"

text \<open>
  \<^verbatim>\<open>get_video_transcript\<close> of \<^verbatim>\<open>yt_transcripts.py\<close> after its one command.
  The language comes from the \<^verbatim>\<open>.info.json\<close> file; \<open>json_language\<close> stands for
  \<^verbatim>\<open>json.load\<close> followed by \<^verbatim>\<open>info.get("language")\<close>, with \<open>None\<close> where
  that raises or gives no string. Reading the caption file is not guarded here: where
  it raises, the function raises.
\<close>

datatype py_exception = UnicodeDecodeError

fun locate_cli ::
  "pystr list \<Rightarrow> pystr \<Rightarrow> files \<Rightarrow> (py_exception + pystr) option \<times> files" where
  "locate_cli [] tmp fs = (None, fs)"
| "locate_cli (ext # exts) tmp fs =
     (case fs (tmp @ ext) of
        None \<Rightarrow> locate_cli exts tmp fs
      | Some Undecodable \<Rightarrow> (Some (Inl UnicodeDecodeError), fs)
      | Some (Text content) \<Rightarrow>
          (Some (Inr (clean_vtt_content_cli content)), fs(tmp @ ext := None)))"

definition read_language :: "(pystr \<Rightarrow> pystr option) \<Rightarrow> pystr \<Rightarrow> files \<Rightarrow> pystr \<times> files" where
  "read_language json_language info_json_path fs =
     (case fs info_json_path of
        None \<Rightarrow> ([], fs)
      | Some f \<Rightarrow>
          ((case f of
              Undecodable \<Rightarrow> []
            | Text content \<Rightarrow>
                (case json_language content of None \<Rightarrow> [] | Some l \<Rightarrow> strip l)),
           fs(info_json_path := None)))"

definition get_video_transcript_cli ::
  "(pystr \<Rightarrow> pystr option) \<Rightarrow> pystr \<Rightarrow> files \<Rightarrow> (py_exception + pystr \<times> pystr) \<times> files" where
  "get_video_transcript_cli json_language video_id fs =
     (let (lang, fs1) = read_language json_language (temp_file video_id @ str ''.info.json'') fs;
          preferred_files =
            (if lang \<noteq> [] then [str ''.'' @ lang @ str ''.vtt''] else [])
            @ [str ''.en.vtt'', str ''.ru.vtt'', str ''.vtt'']
      in case locate_cli preferred_files (temp_file video_id) fs1 of
           (Some (Inl e), fs2) \<Rightarrow> (Inl e, fs2)
         | (Some (Inr transcript), fs2) \<Rightarrow> (Inr (video_id, transcript), fs2)
         | (None, fs2) \<Rightarrow> (Inr (video_id, []), cleanup video_id fs2))"

section \<open>Batch of fetches\<close>

text \<open>
  \<^verbatim>\<open>api_get_transcripts\<close> of \<^verbatim>\<open>app.py\<close>. Every video is submitted to the
  pool, which gives one future per video; \<^verbatim>\<open>future.result()\<close> returns the tuple
  of the fetch or raises. \<^verbatim>\<open>as_completed\<close> yields the futures in the order they
  finish, each once: \<open>completion\<close> lists the positions of the videos in that order.
\<close>

datatype future_result = Returned pystr pystr fetch_msg | Raised pystr

record result_entry =
  r_title :: pystr
  r_url :: pystr
  r_views :: int
  r_transcript :: pystr

text \<open>
  An entry of \<^verbatim>\<open>errors\<close> is the first 40 characters of the title, a colon, and
  the message of the fetch or the text of the exception.
\<close>

datatype failure_detail = Message fetch_msg | ExceptionText pystr

type_synonym failure = "pystr \<times> failure_detail"

fun collect ::
  "(video \<times> future_result) list \<Rightarrow> result_entry list \<Rightarrow> failure list
     \<Rightarrow> result_entry list \<times> failure list" where
  "collect [] results errors = (results, errors)"
| "collect ((v, Returned video_id transcript error) # rest) results errors =
     (if transcript \<noteq> []
      then collect rest
             (results @ [\<lparr>r_title = title v, r_url = url v, r_views = views v,
                           r_transcript = transcript\<rparr>])
             errors
      else collect rest results (errors @ [(take 40 (title v), Message error)]))"
| "collect ((v, Raised e) # rest) results errors =
     collect rest results (errors @ [(take 40 (title v), ExceptionText e)])"

text \<open>
  The one entry that a completed future adds in the loop: a result (left) when the fetch
  returned a transcript, otherwise a failure (right).
\<close>

definition outcome_entry :: "video \<Rightarrow> future_result \<Rightarrow> result_entry + failure" where
  "outcome_entry v fr =
     (case fr of
        Returned video_id transcript error \<Rightarrow>
          (if transcript \<noteq> []
           then Inl \<lparr>r_title = title v, r_url = url v, r_views = views v,
                     r_transcript = transcript\<rparr>
           else Inr (take 40 (title v), Message error))
      | Raised e \<Rightarrow> Inr (take 40 (title v), ExceptionText e))"

text \<open>
  The response. With no video the request is refused; with no transcript the response
  is an error that carries the failures; otherwise it is the report. The text of the
  report is kept as its parts: the table of contents and the sections, both numbered
  from 1 in the order of \<^verbatim>\<open>results\<close>. The log and the times are left out.
\<close>

record report =
  rep_count :: nat
  rep_total :: nat
  rep_errors :: "failure list"
  rep_contents :: "(nat \<times> int \<times> pystr) list"
  rep_sections :: "(nat \<times> result_entry) list"

datatype response = NoVideos | NoTranscripts "failure list" | Report report

definition enumerate1 :: "'a list \<Rightarrow> (nat \<times> 'a) list" where
  "enumerate1 xs = zip [1 ..< Suc (length xs)] xs"

definition api_get_transcripts ::
  "video list \<Rightarrow> future_result list \<Rightarrow> nat list \<Rightarrow> response" where
  "api_get_transcripts videos outcomes completion =
     (if videos = [] then NoVideos
      else (let total = length videos;
                (results, errors) =
                   collect (map (\<lambda>i. (videos ! i, outcomes ! i)) completion) [] []
            in if results = [] then NoTranscripts errors
               else Report \<lparr>rep_count = length results, rep_total = total,
                             rep_errors = errors,
                             rep_contents =
                               map (\<lambda>(i, r). (i, r_views r, r_title r)) (enumerate1 results),
                             rep_sections = enumerate1 results\<rparr>))"

text \<open>The successes and the failures a response reports.\<close>

fun successes :: "response \<Rightarrow> result_entry list" where
  "successes NoVideos = []"
| "successes (NoTranscripts errors) = []"
| "successes (Report r) = map snd (rep_sections r)"

fun failures :: "response \<Rightarrow> failure list" where
  "failures NoVideos = []"
| "failures (NoTranscripts errors) = errors"
| "failures (Report r) = rep_errors r"

text \<open>
  The command-line path, \<^verbatim>\<open>download_transcripts\<close> and the output loop of
  \<^verbatim>\<open>main\<close> in \<^verbatim>\<open>yt_transcripts.py\<close>: the transcripts go into a dictionary
  keyed by video id, and the output walks the submitted list.
\<close>

fun download_transcripts ::
  "(video \<times> (pystr + pystr \<times> pystr)) list \<Rightarrow> (pystr \<rightharpoonup> pystr) \<Rightarrow> (pystr \<rightharpoonup> pystr)" where
  "download_transcripts [] transcripts = transcripts"
| "download_transcripts ((v, Inr (video_id, transcript)) # rest) transcripts =
     (if transcript \<noteq> [] then download_transcripts rest (transcripts(video_id \<mapsto> transcript))
      else download_transcripts rest transcripts)"
| "download_transcripts ((v, Inl e) # rest) transcripts = download_transcripts rest transcripts"

definition main_output :: "video list \<Rightarrow> (pystr \<rightharpoonup> pystr) \<Rightarrow> (pystr \<times> pystr \<times> pystr) list" where
  "main_output videos transcripts =
     map (\<lambda>v. (title v, url v, the (transcripts (vid v))))
         (filter (\<lambda>v. vid v \<in> dom transcripts) videos)"

section \<open>Properties of the string functions\<close>

lemmas str_eval = str_def skip_line_def clean_line_def strip_def py_isspace_def startswith_def
  tag_here_def timestamp_here_def clean_vtt_content_def

lemma split_char_no_sep: "sep \<notin> set s \<Longrightarrow> split_char sep s = [s]"
  by (induction s) auto

lemma split_char_not_Nil: "split_char sep s \<noteq> []"
  by (induction s) (auto split: list.splits)

lemma split_char_append: "split_char sep (a @ sep # b) = split_char sep a @ split_char sep b"
proof (induction a)
  case Nil
  then show ?case by simp
next
  case (Cons x a)
  obtain p ps where ps: "split_char sep a = p # ps"
    using split_char_not_Nil [of sep a] by (cases "split_char sep a") auto
  with Cons show ?case by simp
qed

lemma split_char_pieces: "p \<in> set (split_char sep s) \<Longrightarrow> sep \<notin> set p"
proof (induction s arbitrary: p)
  case Nil
  then show ?case by simp
next
  case (Cons c s)
  show ?case
  proof (cases "c = sep")
    case True
    with Cons show ?thesis by auto
  next
    case False
    obtain q qs where qs: "split_char sep s = q # qs"
      using split_char_not_Nil [of sep s] by (cases "split_char sep s") auto
    with False Cons.prems have "p = c # q \<or> p \<in> set qs" by simp
    then show ?thesis
    proof
      assume "p = c # q"
      moreover have "sep \<notin> set q" using Cons.IH [of q] qs by simp
      ultimately show ?thesis using False by simp
    next
      assume "p \<in> set qs"
      then show ?thesis using Cons.IH [of p] qs by simp
    qed
  qed
qed

lemma hd_split_char: "hd (split_char sep s) = takeWhile (\<lambda>c. c \<noteq> sep) s"
proof (induction s)
  case Nil
  then show ?case by simp
next
  case (Cons c s)
  obtain q qs where qs: "split_char sep s = q # qs"
    using split_char_not_Nil [of sep s] by (cases "split_char sep s") auto
  with Cons show ?case by simp
qed

lemma length_split_char: "sep \<in> set s \<Longrightarrow> 2 \<le> length (split_char sep s)"
proof (induction s)
  case Nil
  then show ?case by simp
next
  case (Cons c s)
  obtain q qs where qs: "split_char sep s = q # qs"
    using split_char_not_Nil [of sep s] by (cases "split_char sep s") auto
  show ?case
  proof (cases "c = sep")
    case True
    then show ?thesis using qs by simp
  next
    case False
    with Cons.prems have "sep \<in> set s" by simp
    then have "2 \<le> length (split_char sep s)" by (rule Cons.IH)
    then show ?thesis using False qs by simp
  qed
qed


section \<open>Properties of the caption cleaner\<close>

text \<open>The two copies of the cleaner are the same function.\<close>

lemma skip_line_cli_eq: "skip_line_cli line = skip_line line"
  by (auto simp: skip_line_cli_def skip_line_def)

lemma clean_loop_cli_eq: "clean_loop_cli lines acc seen = clean_loop lines acc seen"
  by (induction lines arbitrary: acc seen) (simp_all add: skip_line_cli_eq clean_line_def Let_def)

lemma clean_vtt_content_cli_eq: "clean_vtt_content_cli c = clean_vtt_content c"
  by (simp add: clean_vtt_content_cli_def clean_vtt_content_def clean_loop_cli_eq)


text \<open>
  The second substitution never finds a time code: after the first one no
  \<^verbatim>\<open><\<close> is left that starts a tag, and a time code is a tag.
\<close>

lemma strip_tags_no_tag: "\<not> has_tag s \<Longrightarrow> strip_tags s = s"
  by (induction s) auto

lemma set_strip_tags: "set (strip_tags s) \<subseteq> set s"
proof (induction s rule: strip_tags.induct)
  case 1
  then show ?case by simp
next
  case (2 c cs)
  have "set (tl (dropWhile (\<lambda>x. x \<noteq> 62) cs)) \<subseteq> set cs"
    by (metis list.set_sel(2) set_dropWhileD subsetI tl_Nil)
  with 2 show ?case by auto
qed

lemma tag_here_strip_tags: "\<not> tag_here cs \<Longrightarrow> \<not> tag_here (strip_tags cs)"
proof (cases cs)
  case Nil
  then show ?thesis by (simp add: tag_here_def)
next
  case (Cons a as)
  assume n: "\<not> tag_here cs"
  show ?thesis
  proof (cases "a = 62")
    case True
    with Cons show ?thesis by (simp add: tag_here_def)
  next
    case False
    with n Cons have "62 \<notin> set cs" by (simp add: tag_here_def)
    with set_strip_tags [of cs] have "62 \<notin> set (strip_tags cs)" by blast
    then show ?thesis by (simp add: tag_here_def)
  qed
qed

lemma no_tag_after_strip_tags: "\<not> has_tag (strip_tags s)"
proof (induction s rule: strip_tags.induct)
  case 1
  then show ?case by simp
next
  case (2 c cs)
  then show ?case using tag_here_strip_tags [of cs] by auto
qed

lemma timestamp_is_tag: "timestamp_here (c # cs) \<Longrightarrow> c = 60 \<and> tag_here cs"
proof -
  assume t: "timestamp_here (c # cs)"
  then have len: "13 \<le> length cs" and c: "c = 60" and d: "py_isdigit (cs ! 0)" and e: "cs ! 12 = 62"
    by (simp_all add: timestamp_here_def)
  from len have ne: "cs \<noteq> []" by auto
  then have "hd cs = cs ! 0" by (simp add: hd_conv_nth)
  with d have "hd cs \<noteq> 62" by (auto simp: py_isdigit_def)
  moreover have "62 \<in> set cs"
  proof -
    from len have "12 < length cs" by simp
    then have "cs ! 12 \<in> set cs" by (rule nth_mem)
    with e show ?thesis by simp
  qed
  ultimately show ?thesis using c ne by (simp add: tag_here_def)
qed

lemma strip_timestamps_no_tag: "\<not> has_tag s \<Longrightarrow> strip_timestamps s = s"
proof (induction s)
  case Nil
  then show ?case by simp
next
  case (Cons c cs)
  then show ?case using timestamp_is_tag [of c cs] by auto
qed

lemma strip_timestamps_after_tags: "strip_timestamps (strip_tags s) = strip_tags s"
  by (rule strip_timestamps_no_tag) (rule no_tag_after_strip_tags)


text \<open>
  C7 (amended). A text of one line (no newline) that has no whitespace at either end,
  does not start with \<^verbatim>\<open>WEBVTT\<close>, \<^verbatim>\<open>Kind:\<close>, \<^verbatim>\<open>Language:\<close> or
  \<^verbatim>\<open>NOTE\<close>, does not contain \<^verbatim>\<open>-->\<close> and holds no inline tag comes out of
  the cleaner unchanged.
\<close>

theorem clean_already_clean:
  assumes "10 \<notin> set t" and "strip t = t"
    and "\<not> startswith t (str ''WEBVTT'')" and "\<not> startswith t (str ''Kind:'')"
    and "\<not> startswith t (str ''Language:'')" and "\<not> startswith t (str ''NOTE'')"
    and "\<not> py_in (str ''-->'') t" and "\<not> has_tag t"
  shows "clean_vtt_content t = t"
proof (cases "t = []")
  case True
  then show ?thesis by (simp add: clean_vtt_content_def skip_line_def strip_def)
next
  case False
  from assms(1) have sp: "split_char 10 t = [t]" by (rule split_char_no_sep)
  from assms False have sk: "\<not> skip_line t" by (simp add: skip_line_def)
  from assms(8) have "clean_line t = strip t"
    by (simp add: clean_line_def strip_tags_no_tag strip_timestamps_no_tag)
  with assms(2) have cl: "clean_line t = t" by simp
  show ?thesis using False sk cl by (simp add: clean_vtt_content_def sp)
qed


text \<open>The amended C7 at the text \<^verbatim>\<open>hello world\<close>.\<close>

theorem clean_already_clean_witness:
  "10 \<notin> set (str ''hello world'') \<and> strip (str ''hello world'') = str ''hello world''
   \<and> \<not> startswith (str ''hello world'') (str ''WEBVTT'')
   \<and> \<not> startswith (str ''hello world'') (str ''Kind:'')
   \<and> \<not> startswith (str ''hello world'') (str ''Language:'')
   \<and> \<not> startswith (str ''hello world'') (str ''NOTE'')
   \<and> \<not> py_in (str ''-->'') (str ''hello world'') \<and> \<not> has_tag (str ''hello world'')
   \<and> clean_vtt_content (str ''hello world'') = str ''hello world''"
proof -
  have h: "10 \<notin> set (str ''hello world'')" "strip (str ''hello world'') = str ''hello world''"
    "\<not> startswith (str ''hello world'') (str ''WEBVTT'')"
    "\<not> startswith (str ''hello world'') (str ''Kind:'')"
    "\<not> startswith (str ''hello world'') (str ''Language:'')"
    "\<not> startswith (str ''hello world'') (str ''NOTE'')"
    "\<not> py_in (str ''-->'') (str ''hello world'')" "\<not> has_tag (str ''hello world'')"
    by (simp_all add: str_def strip_def py_isspace_def startswith_def tag_here_def)
  from clean_already_clean [OF h] h show ?thesis by blast
qed


text \<open>
  C7 as stated fails: the caption line \<^verbatim>\<open><c>NOTE</c> this\<close> is cleaned to the
  single line \<^verbatim>\<open>NOTE this\<close>, and cleaning that line again gives the empty text,
  because the line now starts with \<^verbatim>\<open>NOTE\<close>.
\<close>

theorem clean_not_idempotent_counterexample:
  "clean_vtt_content (str ''<c>NOTE</c> this'') = str ''NOTE this''
   \<and> 10 \<notin> set (str ''NOTE this'')
   \<and> clean_vtt_content (str ''NOTE this'') \<noteq> str ''NOTE this''"
  by (simp add: str_eval)


section \<open>Properties of the filter\<close>

lemma set_sort_reverse: "set (sort_reverse key xs) = set xs"
  by (simp add: sort_reverse_def)

lemma mset_sort_reverse: "mset (sort_reverse key xs) = mset xs"
  by (simp add: sort_reverse_def)

lemma sorted_sort_reverse: "sorted (rev (map key (sort_reverse key xs)))"
  by (simp add: sort_reverse_def rev_map)

lemma stable_sort_reverse:
  "filter (\<lambda>x. key x = k) (sort_reverse key xs) = filter (\<lambda>x. key x = k) xs"
  by (simp add: sort_reverse_def rev_filter [symmetric] sort_key_stable)

text \<open>How the filter computes: the videos that pass, then sorted as asked.\<close>

lemma filter_videos_eq:
  "filter_videos vs mx mn mv sb =
     (if sb = str ''views'' then sort_reverse views (filter (keeps mx mn mv) vs)
      else if sb = str ''duration'' then sort_reverse duration (filter (keeps mx mn mv) vs)
      else filter (keeps mx mn mv) vs)"
proof -
  have "(if truthy mv then filter (\<lambda>v. the mv \<le> views v) else id)
          ((if truthy mn then filter (\<lambda>v. of_int (the mn * 60) \<le> duration v) else id)
             ((if truthy mx then filter (\<lambda>v. duration v \<le> of_int (the mx * 60)) else id) vs))
        = filter (keeps mx mn mv) vs"
    by (auto simp: keeps_def intro: filter_cong)
  then show ?thesis
    by (simp add: filter_videos_def Let_def if_distrib [of "\<lambda>f. f _"] cong: if_cong)
qed

lemma str_views_neq: "str ''views'' \<noteq> str ''duration''"
  by (simp add: str_def)


text \<open>
  C8. The filter keeps exactly the videos that pass the inclusive thresholds (a video
  whose duration equals the bound is kept), each once. Sorted by views or by duration,
  the result is in descending order of that key and videos with equal keys keep their
  order; with any other key the order is unchanged. With durations 30, 300, 600 and 1200
  seconds and a maximum of 15 minutes (900 seconds), the result holds the first three
  videos and not the one of 1200 seconds.
\<close>

theorem filter_videos_inclusive_stable:
  "mset (filter_videos vs mx mn mv sb) = mset (filter (keeps mx mn mv) vs)
   \<and> (sb = str ''views'' \<longrightarrow>
        sorted (rev (map views (filter_videos vs mx mn mv sb)))
        \<and> (\<forall>k. filter (\<lambda>v. views v = k) (filter_videos vs mx mn mv sb)
                = filter (\<lambda>v. views v = k) (filter (keeps mx mn mv) vs)))
   \<and> (sb = str ''duration'' \<longrightarrow>
        sorted (rev (map duration (filter_videos vs mx mn mv sb)))
        \<and> (\<forall>k. filter (\<lambda>v. duration v = k) (filter_videos vs mx mn mv sb)
                = filter (\<lambda>v. duration v = k) (filter (keeps mx mn mv) vs)))
   \<and> (sb \<noteq> str ''views'' \<and> sb \<noteq> str ''duration'' \<longrightarrow>
        filter_videos vs mx mn mv sb = filter (keeps mx mn mv) vs)
   \<and> (map duration vs = [30, 300, 600, 1200] \<longrightarrow>
        mset (filter_videos vs (Some 15) None None sb) = mset (take 3 vs))"
proof -
  have ex: "mset (filter_videos vs (Some 15) None None sb) = mset (take 3 vs)"
    if d: "map duration vs = [30, 300, 600, 1200]"
  proof -
    from d obtain a b c e where vs: "vs = [a, b, c, e]"
      and da: "duration a = 30" "duration b = 300" "duration c = 600" "duration e = 1200"
      by (auto simp: map_eq_Cons_conv)
    have "filter (keeps (Some 15) None None) vs = take 3 vs"
      using da by (simp add: vs keeps_def truthy_def)
    then show ?thesis by (simp add: filter_videos_eq mset_sort_reverse)
  qed
  show ?thesis
    using ex
    by (simp add: filter_videos_eq mset_sort_reverse sorted_sort_reverse stable_sort_reverse
        str_views_neq)
qed

text \<open>C8 at four videos of 30, 300, 600 and 1200 seconds, sorted by views.\<close>

theorem filter_videos_inclusive_stable_witness:
  "map duration
     [\<lparr>vid = str ''a'', title = str ''A'', duration = 30, views = 5, url = []\<rparr>,
      \<lparr>vid = str ''b'', title = str ''B'', duration = 300, views = 9, url = []\<rparr>,
      \<lparr>vid = str ''c'', title = str ''C'', duration = 600, views = 5, url = []\<rparr>,
      \<lparr>vid = str ''d'', title = str ''D'', duration = 1200, views = 7, url = []\<rparr>]
     = [30, 300, 600, 1200]
   \<and> mset (filter_videos
        [\<lparr>vid = str ''a'', title = str ''A'', duration = 30, views = 5, url = []\<rparr>,
         \<lparr>vid = str ''b'', title = str ''B'', duration = 300, views = 9, url = []\<rparr>,
         \<lparr>vid = str ''c'', title = str ''C'', duration = 600, views = 5, url = []\<rparr>,
         \<lparr>vid = str ''d'', title = str ''D'', duration = 1200, views = 7, url = []\<rparr>]
        (Some 15) None None (str ''views''))
     = mset
        [\<lparr>vid = str ''a'', title = str ''A'', duration = 30, views = 5, url = []\<rparr>,
         \<lparr>vid = str ''b'', title = str ''B'', duration = 300, views = 9, url = []\<rparr>,
         \<lparr>vid = str ''c'', title = str ''C'', duration = 600, views = 5, url = []\<rparr>]
   \<and> sorted (rev (map views (filter_videos
        [\<lparr>vid = str ''a'', title = str ''A'', duration = 30, views = 5, url = []\<rparr>,
         \<lparr>vid = str ''b'', title = str ''B'', duration = 300, views = 9, url = []\<rparr>,
         \<lparr>vid = str ''c'', title = str ''C'', duration = 600, views = 5, url = []\<rparr>,
         \<lparr>vid = str ''d'', title = str ''D'', duration = 1200, views = 7, url = []\<rparr>]
        (Some 15) None None (str ''views''))))"
proof -
  let ?vs = "[\<lparr>vid = str ''a'', title = str ''A'', duration = 30, views = 5, url = []\<rparr>,
         \<lparr>vid = str ''b'', title = str ''B'', duration = 300, views = 9, url = []\<rparr>,
         \<lparr>vid = str ''c'', title = str ''C'', duration = 600, views = 5, url = []\<rparr>,
         \<lparr>vid = str ''d'', title = str ''D'', duration = 1200, views = 7, url = []\<rparr>]"
  have d: "map duration ?vs = [30, 300, 600, 1200]" by simp
  note inst = filter_videos_inclusive_stable [of ?vs "Some 15" None None "str ''views''"]
  from inst d have m: "mset (filter_videos ?vs (Some 15) None None (str ''views''))
      = mset (take 3 ?vs)"
    by blast
  from inst have s: "sorted (rev (map views (filter_videos ?vs (Some 15) None None (str ''views''))))"
    by blast
  from m have m': "mset (filter_videos ?vs (Some 15) None None (str ''views''))
      = mset [\<lparr>vid = str ''a'', title = str ''A'', duration = 30, views = 5, url = []\<rparr>,
         \<lparr>vid = str ''b'', title = str ''B'', duration = 300, views = 9, url = []\<rparr>,
         \<lparr>vid = str ''c'', title = str ''C'', duration = 600, views = 5, url = []\<rparr>]"
    by (simp add: numeral_3_eq_3)
  from d m' s show ?thesis by blast
qed

text \<open>
  C9. A threshold of 0 for the maximum duration, the minimum duration or the minimum
  views gives the same result as no threshold there.
\<close>

theorem filter_videos_zero_threshold:
  "filter_videos vs (Some 0) mn mv sb = filter_videos vs None mn mv sb
   \<and> filter_videos vs mx (Some 0) mv sb = filter_videos vs mx None mv sb
   \<and> filter_videos vs mx mn (Some 0) sb = filter_videos vs mx mn None sb"
  by (simp add: filter_videos_def truthy_def)

section \<open>Properties of the catalog listing\<close>

lemma py_in_single: "py_in [c] s = (c \<in> set s)"
  by (induction s) auto

lemma parse_line_title: "parse_line to_float to_int line = Some v \<Longrightarrow> 124 \<notin> set (title v)"
proof -
  assume a: "parse_line to_float to_int line = Some v"
  then have len: "4 \<le> length (split_char 124 line)"
    by (auto simp: parse_line_def Let_def split: if_splits)
  from a have "title v = split_char 124 line ! 1"
    by (auto simp: parse_line_def Let_def split: if_splits option.splits)
  moreover from len have "split_char 124 line ! 1 \<in> set (split_char 124 line)"
    by (intro nth_mem) simp
  ultimately show ?thesis using split_char_pieces by metis
qed

lemma parse_lines_title: "v \<in> set (parse_lines to_float to_int lines) \<Longrightarrow> 124 \<notin> set (title v)"
  by (induction lines) (auto split: option.splits dest: parse_line_title)

lemma split_listing_line:
  assumes "124 \<notin> set i" and "124 \<notin> set d" and "124 \<notin> set w"
  shows "split_char 124 (i @ 124 # t @ 124 # d @ 124 # w) = i # split_char 124 t @ [d, w]"
proof -
  have "split_char 124 (d @ 124 # w) = [d, w]"
    using assms by (simp add: split_char_append split_char_no_sep)
  then have "split_char 124 (t @ 124 # d @ 124 # w) = split_char 124 t @ [d, w]"
    by (simp add: split_char_append)
  then show ?thesis
    using assms(1) by (simp add: split_char_append split_char_no_sep)
qed


text \<open>
  C10 (amended). Every descriptor returned by the listing has a title without
  \<^verbatim>\<open>|\<close>. For a line whose title contains \<^verbatim>\<open>|\<close>, the split shifts the
  columns: the title is cut at its first \<^verbatim>\<open>|\<close>, and the duration and the views
  are read from the two fields that follow (pieces of the title, or the real duration
  after the last piece). The record is dropped when one of these two fields is not
  \<^verbatim>\<open>NA\<close> and does not parse; otherwise a descriptor with the shifted values is
  returned.
\<close>

theorem listing_pipe_in_title:
  "(\<forall>v \<in> set (get_channel_videos to_float to_int stdout code). 124 \<notin> set (title v))
   \<and> (\<forall>v \<in> set (get_channel_videos_app to_float to_int stdout code sort_by).
         124 \<notin> set (title v))
   \<and> (124 \<notin> set i \<and> 124 \<in> set t \<and> 124 \<notin> set d \<and> 124 \<notin> set w \<longrightarrow>
        parse_line to_float to_int (i @ 124 # t @ 124 # d @ 124 # w) =
          (let cols = tl (split_char 124 t) @ [d, w] in
           case (if cols ! 0 \<noteq> str ''NA'' then to_float (cols ! 0) else Some 0) of
             None \<Rightarrow> None
           | Some x \<Rightarrow>
               (case (if cols ! 1 \<noteq> str ''NA'' then to_int (cols ! 1) else Some 0) of
                  None \<Rightarrow> None
                | Some n \<Rightarrow>
                    Some \<lparr>vid = i, title = takeWhile (\<lambda>c. c \<noteq> 124) t, duration = x,
                          views = n, url = watch_url i\<rparr>)))"
proof (intro conjI impI ballI)
  fix v assume "v \<in> set (get_channel_videos to_float to_int stdout code)"
  then show "124 \<notin> set (title v)"
    by (auto simp: get_channel_videos_def split: if_splits dest: parse_lines_title)
next
  fix v assume "v \<in> set (get_channel_videos_app to_float to_int stdout code sort_by)"
  then show "124 \<notin> set (title v)"
    by (auto simp: get_channel_videos_app_def Let_def set_sort_reverse split: if_splits
        dest: parse_lines_title)
next
  assume a: "124 \<notin> set i \<and> 124 \<in> set t \<and> 124 \<notin> set d \<and> 124 \<notin> set w"
  let ?line = "i @ 124 # t @ 124 # d @ 124 # w"
  from a have "2 \<le> length (split_char 124 t)" by (simp add: length_split_char)
  then obtain p q rest where t: "split_char 124 t = p # q # rest"
    by (cases "split_char 124 t"; cases "tl (split_char 124 t)") auto
  have p: "p = takeWhile (\<lambda>c. c \<noteq> 124) t"
    using hd_split_char [of 124 t] t by simp
  have parts: "split_char 124 ?line = i # p # q # rest @ [d, w]"
    using a t by (simp add: split_listing_line)
  have pipe: "py_in (str ''|'') ?line"
    by (simp add: str_def py_in_single)
  have third: "(rest @ [d, w]) ! 0 = (q # rest @ [d, w]) ! 1" by simp
  show "parse_line to_float to_int ?line =
          (let cols = tl (split_char 124 t) @ [d, w] in
           case (if cols ! 0 \<noteq> str ''NA'' then to_float (cols ! 0) else Some 0) of
             None \<Rightarrow> None
           | Some x \<Rightarrow>
               (case (if cols ! 1 \<noteq> str ''NA'' then to_int (cols ! 1) else Some 0) of
                  None \<Rightarrow> None
                | Some n \<Rightarrow>
                    Some \<lparr>vid = i, title = takeWhile (\<lambda>c. c \<noteq> 124) t, duration = x,
                          views = n, url = watch_url i\<rparr>))"
    unfolding parse_line_def Let_def parts t
    using pipe p by (simp split: option.splits)
qed


text \<open>
  The amended C10 at the listing \<^verbatim>\<open>abc|A|NA|NA|120|5000\<close> and at the line
  \<^verbatim>\<open>abc|Top|x|120|5000\<close>, which is dropped.
\<close>

theorem listing_pipe_in_title_witness:
  "\<lparr>vid = str ''abc'', title = str ''A'', duration = 0, views = 0,
     url = str ''https://www.youtube.com/watch?v=abc''\<rparr>
     \<in> set (get_channel_videos (\<lambda>s. None) (\<lambda>s. None) (str ''abc|A|NA|NA|120|5000'') 0)
   \<and> 124 \<notin> set (str ''A'')
   \<and> 124 \<notin> set (str ''abc'') \<and> 124 \<in> set (str ''Top|x'') \<and> 124 \<notin> set (str ''120'')
   \<and> 124 \<notin> set (str ''5000'')
   \<and> parse_line (\<lambda>s. None) (\<lambda>s. None)
        (str ''abc'' @ 124 # str ''Top|x'' @ 124 # str ''120'' @ 124 # str ''5000'') = None"
proof -
  let ?v = "\<lparr>vid = str ''abc'', title = str ''A'', duration = 0, views = 0,
     url = str ''https://www.youtube.com/watch?v=abc''\<rparr>"
  have m: "?v \<in> set (get_channel_videos (\<lambda>s. None) (\<lambda>s. None) (str ''abc|A|NA|NA|120|5000'') 0)"
    by (simp add: get_channel_videos_def parse_line_def str_def strip_def py_isspace_def
        watch_url_def)
  have h: "124 \<notin> set (str ''abc'') \<and> 124 \<in> set (str ''Top|x'') \<and> 124 \<notin> set (str ''120'')
    \<and> 124 \<notin> set (str ''5000'')"
    by (simp add: str_def)
  note inst = listing_pipe_in_title [of "\<lambda>s. None" "\<lambda>s. None" "str ''abc|A|NA|NA|120|5000''" 0
      "[]" "str ''abc''" "str ''Top|x''" "str ''120''" "str ''5000''"]
  from inst m have "124 \<notin> set (title ?v)" by blast
  then have t: "124 \<notin> set (str ''A'')" by simp
  from inst h have d: "parse_line (\<lambda>s. None) (\<lambda>s. None)
      (str ''abc'' @ 124 # str ''Top|x'' @ 124 # str ''120'' @ 124 # str ''5000'') = None"
    by (simp add: str_def)
  from m t h d show ?thesis by blast
qed

text \<open>
  C10 as stated fails: the line \<^verbatim>\<open>abc|A|NA|NA|120|5000\<close>, whose title is
  \<^verbatim>\<open>A|NA|NA\<close>, is kept with title \<^verbatim>\<open>A\<close>, duration 0 and 0 views, whatever
  the number parsers do; and the line \<^verbatim>\<open>abc|Top|5|212|120|5000\<close>, whose title is
  \<^verbatim>\<open>Top|5|212\<close>, is kept with duration 5 and 212 views, given only that
  \<^verbatim>\<open>float('5')\<close> is 5 and \<^verbatim>\<open>int('212')\<close> is 212.
\<close>

theorem listing_pipe_in_title_counterexample:
  "get_channel_videos (\<lambda>s. None) (\<lambda>s. None) (str ''abc|A|NA|NA|120|5000'') 0
     = [\<lparr>vid = str ''abc'', title = str ''A'', duration = 0, views = 0,
         url = str ''https://www.youtube.com/watch?v=abc''\<rparr>]
   \<and> get_channel_videos (\<lambda>s. if s = str ''5'' then Some 5 else None)
        (\<lambda>s. if s = str ''212'' then Some 212 else None) (str ''abc|Top|5|212|120|5000'') 0
     = [\<lparr>vid = str ''abc'', title = str ''Top'', duration = 5, views = 212,
         url = str ''https://www.youtube.com/watch?v=abc''\<rparr>]"
  by (simp add: get_channel_videos_def parse_line_def str_def strip_def py_isspace_def
      watch_url_def)

section \<open>Properties of the single-video fetch\<close>

lemmas py_eval = str_def lower_def lower_cp_def temp_file_def candidates_app_def
  clean_vtt_content_def clean_vtt_content_cli_def skip_line_def skip_line_cli_def clean_line_def
  strip_def py_isspace_def startswith_def tag_here_def timestamp_here_def


text \<open>
  C4. Whatever the exit code, the fetch of \<^verbatim>\<open>app.py\<close> classifies the diagnostic
  text in the order Blocked, RateLimited, AuthFailure, ToolOutdated, and only then
  NoCaptions or Success. A text with a bot-block marker is Blocked, also when it has a
  rate-limit marker. A text with a rate-limit marker (\<^verbatim>\<open>rate limit\<close> in any case,
  or \<^verbatim>\<open>429\<close>) and no bot-block marker is RateLimited, and a text with a rate-limit
  marker is never NoCaptions.
\<close>

theorem classifier_precedence:
  "(let r = outcome_of (fst (get_video_transcript_app video_id stderr code fs));
        blocked = (py_in (str ''Sign in to confirm'') stderr \<or> py_in (str ''captcha'') (lower stderr));
        rate = (py_in (str ''rate limit'') (lower stderr) \<or> py_in (str ''429'') stderr);
        auth = (py_in (str ''cookies'') (lower stderr) \<and> py_in (str ''error'') (lower stderr));
        outdated = (py_in (str ''found 0 sig function possibilities'') stderr
                    \<or> py_in (str ''Signature solving failed'') stderr
                    \<or> py_in (str ''n challenge solving failed'') stderr
                    \<or> py_in (str ''Only images are available'') stderr)
    in (blocked \<longrightarrow> r = Blocked)
       \<and> (rate \<and> \<not> blocked \<longrightarrow> r = RateLimited)
       \<and> (rate \<longrightarrow> r \<noteq> NoCaptions \<and> r \<noteq> Success)
       \<and> (auth \<and> \<not> blocked \<and> \<not> rate \<longrightarrow> r = AuthFailure)
       \<and> (outdated \<and> \<not> blocked \<and> \<not> rate \<and> \<not> auth \<longrightarrow> r = ToolOutdated)
       \<and> (\<not> blocked \<and> \<not> rate \<and> \<not> auth \<and> \<not> outdated \<longrightarrow> r = NoCaptions \<or> r = Success))"
  by (simp add: get_video_transcript_app_def Let_def split: prod.splits option.splits)


text \<open>
  C4 at a diagnostic with \<^verbatim>\<open>429\<close> and exit code 1, and at one with both the
  sign-in marker and \<^verbatim>\<open>429\<close>.
\<close>

theorem classifier_precedence_witness:
  "py_in (str ''429'') (str ''ERROR: HTTP Error 429: Too Many Requests'')
   \<and> \<not> (py_in (str ''Sign in to confirm'') (str ''ERROR: HTTP Error 429: Too Many Requests'')
        \<or> py_in (str ''captcha'') (lower (str ''ERROR: HTTP Error 429: Too Many Requests'')))
   \<and> outcome_of (fst (get_video_transcript_app (str ''abc'')
         (str ''ERROR: HTTP Error 429: Too Many Requests'') 1 Map.empty)) = RateLimited
   \<and> py_in (str ''Sign in to confirm'') (str ''Sign in to confirm you are not a bot (429)'')
   \<and> py_in (str ''429'') (str ''Sign in to confirm you are not a bot (429)'')
   \<and> outcome_of (fst (get_video_transcript_app (str ''abc'')
         (str ''Sign in to confirm you are not a bot (429)'') 1 Map.empty)) = Blocked"
proof -
  have a: "py_in (str ''429'') (str ''ERROR: HTTP Error 429: Too Many Requests'')"
    by (simp add: str_def)
  have b: "\<not> (py_in (str ''Sign in to confirm'') (str ''ERROR: HTTP Error 429: Too Many Requests'')
        \<or> py_in (str ''captcha'') (lower (str ''ERROR: HTTP Error 429: Too Many Requests'')))"
    by (simp add: str_def lower_def lower_cp_def)
  have c: "py_in (str ''Sign in to confirm'') (str ''Sign in to confirm you are not a bot (429)'')"
    by (simp add: str_def)
  have d: "py_in (str ''429'') (str ''Sign in to confirm you are not a bot (429)'')"
    by (simp add: str_def)
  have e: "outcome_of (fst (get_video_transcript_app (str ''abc'')
         (str ''ERROR: HTTP Error 429: Too Many Requests'') 1 Map.empty)) = RateLimited"
    using classifier_precedence [of "str ''abc''" "str ''ERROR: HTTP Error 429: Too Many Requests''" 1 Map.empty] a b
    unfolding Let_def by blast
  have f: "outcome_of (fst (get_video_transcript_app (str ''abc'')
         (str ''Sign in to confirm you are not a bot (429)'') 1 Map.empty)) = Blocked"
    using classifier_precedence [of "str ''abc''" "str ''Sign in to confirm you are not a bot (429)''" 1 Map.empty] c
    unfolding Let_def by blast
  from a b c d e f show ?thesis by blast
qed


text \<open>
  C1 fails in \<^verbatim>\<open>app.py\<close>. With only the files \<^verbatim>\<open>.en.vtt\<close> and
  \<^verbatim>\<open>.vtt\<close> present, its search probes \<^verbatim>\<open>.ru.vtt\<close>, then the untagged
  \<^verbatim>\<open>.vtt\<close>, and returns the untagged text; the search of
  \<^verbatim>\<open>yt_transcripts.py\<close> probes every tagged file first and returns the text of
  \<^verbatim>\<open>.en.vtt\<close> from the same files.
\<close>

theorem locator_probes_untagged_before_en:
  "fst (get_video_transcript_app (str ''abc'') [] 0
      [str ''/tmp/yt_transcript_abc.en.vtt'' \<mapsto> Text (str ''hello english''),
       str ''/tmp/yt_transcript_abc.vtt'' \<mapsto> Text (str ''hello plain'')])
     = (str ''abc'', str ''hello plain'', NoError)
   \<and> fst (get_video_transcript_cli (\<lambda>c. None) (str ''abc'')
      [str ''/tmp/yt_transcript_abc.en.vtt'' \<mapsto> Text (str ''hello english''),
       str ''/tmp/yt_transcript_abc.vtt'' \<mapsto> Text (str ''hello plain'')])
     = Inr (str ''abc'', str ''hello english'')"
  by (simp add: get_video_transcript_app_def get_video_transcript_cli_def read_language_def py_eval)


text \<open>
  C3 fails. In \<^verbatim>\<open>app.py\<close> a fetch classified as rate-limited returns before the
  cleanup, so a caption file of the video stays; a successful fetch removes only the file
  it read, in both programs, so a second caption file of the video stays.
\<close>

theorem temp_files_left_behind:
  "snd (get_video_transcript_app (str ''abc'') (str ''ERROR: HTTP Error 429: Too Many Requests'') 1
      [str ''/tmp/yt_transcript_abc.en.vtt'' \<mapsto> Text (str ''hello english'')])
     (str ''/tmp/yt_transcript_abc.en.vtt'') = Some (Text (str ''hello english''))
   \<and> snd (get_video_transcript_app (str ''abc'') [] 0
      [str ''/tmp/yt_transcript_abc.ru.vtt'' \<mapsto> Text (str ''privet''),
       str ''/tmp/yt_transcript_abc.en.vtt'' \<mapsto> Text (str ''hello english'')])
     (str ''/tmp/yt_transcript_abc.en.vtt'') = Some (Text (str ''hello english''))
   \<and> snd (get_video_transcript_cli (\<lambda>c. None) (str ''abc'')
      [str ''/tmp/yt_transcript_abc.ru.vtt'' \<mapsto> Text (str ''privet''),
       str ''/tmp/yt_transcript_abc.en.vtt'' \<mapsto> Text (str ''hello english'')])
     (str ''/tmp/yt_transcript_abc.ru.vtt'') = Some (Text (str ''privet''))
   \<and> glob_match (str ''abc'') (str ''/tmp/yt_transcript_abc.en.vtt'')
   \<and> glob_match (str ''abc'') (str ''/tmp/yt_transcript_abc.ru.vtt'')"
  by (simp add: get_video_transcript_app_def get_video_transcript_cli_def read_language_def
      glob_match_def py_eval)

section \<open>Properties of the batch\<close>

lemma map_snd_enumerate1: "map snd (enumerate1 xs) = xs"
proof -
  have "length [1 ..< Suc (length xs)] = length xs" by (simp del: upt_Suc)
  then show ?thesis unfolding enumerate1_def by (rule map_snd_zip)
qed

lemma collect_lengths:
  "collect cs rs es = (rs', es') \<Longrightarrow> length rs' + length es' = length rs + length es + length cs"
  by (induction cs rs es rule: collect.induct) (auto split: if_splits)

lemma collect_keeps_errors: "f \<in> set es \<Longrightarrow> f \<in> set (snd (collect cs rs es))"
  by (induction cs rs es rule: collect.induct) auto

lemma collect_keeps_results: "r \<in> set rs \<Longrightarrow> r \<in> set (fst (collect cs rs es))"
  by (induction cs rs es rule: collect.induct) auto

lemma collect_raised:
  "(v, Raised e) \<in> set cs \<Longrightarrow> (take 40 (title v), ExceptionText e) \<in> set (snd (collect cs rs es))"
  by (induction cs rs es rule: collect.induct) (auto simp: collect_keeps_errors)

lemma collect_returned:
  "(v, Returned i t m) \<in> set cs \<Longrightarrow> t \<noteq> [] \<Longrightarrow>
     \<lparr>r_title = title v, r_url = url v, r_views = views v, r_transcript = t\<rparr>
       \<in> set (fst (collect cs rs es))"
  by (induction cs rs es rule: collect.induct) (auto simp: collect_keeps_results)

lemma response_parts:
  "videos \<noteq> [] \<Longrightarrow>
     successes (api_get_transcripts videos outcomes completion)
       = fst (collect (map (\<lambda>i. (videos ! i, outcomes ! i)) completion) [] [])
     \<and> failures (api_get_transcripts videos outcomes completion)
       = snd (collect (map (\<lambda>i. (videos ! i, outcomes ! i)) completion) [] [])"
  by (auto simp: api_get_transcripts_def Let_def map_snd_enumerate1 split: prod.splits)

lemma completed_member:
  assumes "mset completion = mset [0 ..< length videos]" and "j < length videos"
  shows "(videos ! j, outcomes ! j) \<in> set (map (\<lambda>i. (videos ! i, outcomes ! i)) completion)"
proof -
  from assms(1) have "set completion = set [0 ..< length videos]" by (rule mset_eq_setD)
  with assms(2) have "j \<in> set completion" by simp
  then show ?thesis by auto
qed


lemma collect_entries:
  "collect cs rs es = (rs', es') \<Longrightarrow>
     mset (map Inl rs') + mset (map Inr es')
       = mset (map Inl rs) + mset (map Inr es) + mset (map (\<lambda>(v, fr). outcome_entry v fr) cs)"
  by (induction cs rs es rule: collect.induct) (auto simp: outcome_entry_def split: if_splits)

text \<open>
  C5. For a list of N videos, each with one future that completes once, the successes
  and the failures of the response are N together, and they are, entry for entry, the
  outcomes of the N submitted videos: every position of the list gives exactly one entry,
  none is dropped and none is counted twice.
\<close>

theorem batch_cardinality:
  assumes "length outcomes = length videos"
    and "mset completion = mset [0 ..< length videos]"
  shows "length (successes (api_get_transcripts videos outcomes completion))
         + length (failures (api_get_transcripts videos outcomes completion)) = length videos
       \<and> mset (map Inl (successes (api_get_transcripts videos outcomes completion)))
         + mset (map Inr (failures (api_get_transcripts videos outcomes completion)))
         = mset (map (\<lambda>j. outcome_entry (videos ! j) (outcomes ! j)) [0 ..< length videos])"
proof (cases "videos = []")
  case True
  then show ?thesis by (simp add: api_get_transcripts_def)
next
  case False
  let ?cs = "map (\<lambda>i. (videos ! i, outcomes ! i)) completion"
  from assms(2) have len: "length completion = length videos"
    by (metis length_upt mset_eq_length minus_nat.diff_0)
  obtain rs es where c: "collect ?cs [] [] = (rs, es)"
    by (cases "collect ?cs [] []") auto
  from response_parts [OF False, of outcomes completion] c
  have s: "successes (api_get_transcripts videos outcomes completion) = rs"
    and f: "failures (api_get_transcripts videos outcomes completion) = es"
    by simp_all
  from collect_lengths [OF c] len have n: "length rs + length es = length videos" by simp
  have "mset (map (\<lambda>(v, fr). outcome_entry v fr) ?cs)
          = image_mset (\<lambda>j. outcome_entry (videos ! j) (outcomes ! j)) (mset completion)"
    by (simp add: comp_def)
  also have "\<dots> = mset (map (\<lambda>j. outcome_entry (videos ! j) (outcomes ! j)) [0 ..< length videos])"
    using assms(2) by simp
  finally have "mset (map Inl rs) + mset (map Inr es)
          = mset (map (\<lambda>j. outcome_entry (videos ! j) (outcomes ! j)) [0 ..< length videos])"
    using collect_entries [OF c] by simp
  with n s f show ?thesis by simp
qed

text \<open>C5 at two videos, one fetched and one whose fetch raises and completes first.\<close>

theorem batch_cardinality_witness:
  "length [Returned (str ''a'') (str ''text a'') NoError, Raised (str ''boom'')]
     = length [\<lparr>vid = str ''a'', title = str ''A'', duration = 60, views = 100, url = str ''ua''\<rparr>,
               \<lparr>vid = str ''b'', title = str ''B'', duration = 60, views = 50, url = str ''ub''\<rparr>]
   \<and> mset [1, 0 :: nat]
     = mset [0 ..< length [\<lparr>vid = str ''a'', title = str ''A'', duration = 60, views = 100, url = str ''ua''\<rparr>,
               \<lparr>vid = str ''b'', title = str ''B'', duration = 60, views = 50, url = str ''ub''\<rparr>]]
   \<and> length (successes (api_get_transcripts
        [\<lparr>vid = str ''a'', title = str ''A'', duration = 60, views = 100, url = str ''ua''\<rparr>,
         \<lparr>vid = str ''b'', title = str ''B'', duration = 60, views = 50, url = str ''ub''\<rparr>]
        [Returned (str ''a'') (str ''text a'') NoError, Raised (str ''boom'')] [1, 0]))
     + length (failures (api_get_transcripts
        [\<lparr>vid = str ''a'', title = str ''A'', duration = 60, views = 100, url = str ''ua''\<rparr>,
         \<lparr>vid = str ''b'', title = str ''B'', duration = 60, views = 50, url = str ''ub''\<rparr>]
        [Returned (str ''a'') (str ''text a'') NoError, Raised (str ''boom'')] [1, 0]))
     = 2
   \<and> mset (map Inl (successes (api_get_transcripts
        [\<lparr>vid = str ''a'', title = str ''A'', duration = 60, views = 100, url = str ''ua''\<rparr>,
         \<lparr>vid = str ''b'', title = str ''B'', duration = 60, views = 50, url = str ''ub''\<rparr>]
        [Returned (str ''a'') (str ''text a'') NoError, Raised (str ''boom'')] [1, 0])))
     + mset (map Inr (failures (api_get_transcripts
        [\<lparr>vid = str ''a'', title = str ''A'', duration = 60, views = 100, url = str ''ua''\<rparr>,
         \<lparr>vid = str ''b'', title = str ''B'', duration = 60, views = 50, url = str ''ub''\<rparr>]
        [Returned (str ''a'') (str ''text a'') NoError, Raised (str ''boom'')] [1, 0])))
     = {#Inl \<lparr>r_title = str ''A'', r_url = str ''ua'', r_views = 100,
               r_transcript = str ''text a''\<rparr>,
         Inr (str ''B'', ExceptionText (str ''boom''))#}"
proof -
  let ?vs = "[\<lparr>vid = str ''a'', title = str ''A'', duration = 60, views = 100, url = str ''ua''\<rparr>,
              \<lparr>vid = str ''b'', title = str ''B'', duration = 60, views = 50, url = str ''ub''\<rparr>]"
  let ?os = "[Returned (str ''a'') (str ''text a'') NoError, Raised (str ''boom'')]"
  have h1: "length ?os = length ?vs" by simp
  have h2: "mset [1, 0 :: nat] = mset [0 ..< length ?vs]" by (simp add: upt_rec)
  have r: "mset (map (\<lambda>j. outcome_entry (?vs ! j) (?os ! j)) [0 ..< length ?vs])
      = {#Inl \<lparr>r_title = str ''A'', r_url = str ''ua'', r_views = 100,
               r_transcript = str ''text a''\<rparr>,
         Inr (str ''B'', ExceptionText (str ''boom''))#}"
    by (simp add: upt_rec outcome_entry_def str_def)
  note inst = batch_cardinality [OF h1 h2]
  from inst have n: "length (successes (api_get_transcripts ?vs ?os [1, 0]))
      + length (failures (api_get_transcripts ?vs ?os [1, 0])) = 2"
    by simp
  from inst r have m: "mset (map Inl (successes (api_get_transcripts ?vs ?os [1, 0])))
      + mset (map Inr (failures (api_get_transcripts ?vs ?os [1, 0])))
      = {#Inl \<lparr>r_title = str ''A'', r_url = str ''ua'', r_views = 100,
               r_transcript = str ''text a''\<rparr>,
         Inr (str ''B'', ExceptionText (str ''boom''))#}"
    by (simp only:)
  from h1 h2 n m show ?thesis by blast
qed

text \<open>
  C6. When the fetch of video x raises, the response holds a failure for x with the text
  of the exception, and a success for every other video whose fetch returned a transcript.
\<close>

theorem batch_fault_isolation:
  assumes "length outcomes = length videos"
    and "mset completion = mset [0 ..< length videos]"
    and "x < length videos" and "outcomes ! x = Raised e"
  shows "(take 40 (title (videos ! x)), ExceptionText e)
           \<in> set (failures (api_get_transcripts videos outcomes completion))
         \<and> (\<forall>j < length videos. \<forall>i t m. outcomes ! j = Returned i t m \<and> t \<noteq> [] \<longrightarrow>
               \<lparr>r_title = title (videos ! j), r_url = url (videos ! j),
                 r_views = views (videos ! j), r_transcript = t\<rparr>
                 \<in> set (successes (api_get_transcripts videos outcomes completion)))"
proof -
  from assms(3) have ne: "videos \<noteq> []" by auto
  let ?cs = "map (\<lambda>i. (videos ! i, outcomes ! i)) completion"
  note parts = response_parts [OF ne, of outcomes completion]
  have "(videos ! x, Raised e) \<in> set ?cs"
    using completed_member [OF assms(2) assms(3), of outcomes] assms(4) by simp
  then have one: "(take 40 (title (videos ! x)), ExceptionText e)
      \<in> set (failures (api_get_transcripts videos outcomes completion))"
    using parts by (simp add: collect_raised)
  have two: "\<lparr>r_title = title (videos ! j), r_url = url (videos ! j),
                 r_views = views (videos ! j), r_transcript = t\<rparr>
                 \<in> set (successes (api_get_transcripts videos outcomes completion))"
    if "j < length videos" and "outcomes ! j = Returned i t m" and "t \<noteq> []" for j i t m
  proof -
    have "(videos ! j, Returned i t m) \<in> set ?cs"
      using completed_member [OF assms(2) that(1), of outcomes] that(2) by simp
    then show ?thesis using parts that(3) by (simp add: collect_returned)
  qed
  from one two show ?thesis by blast
qed

text \<open>C6 at two videos, the second of which raises and completes first.\<close>

theorem batch_fault_isolation_witness:
  "length [Returned (str ''a'') (str ''text a'') NoError, Raised (str ''boom'')]
     = length [\<lparr>vid = str ''a'', title = str ''A'', duration = 60, views = 100, url = str ''ua''\<rparr>,
               \<lparr>vid = str ''b'', title = str ''B'', duration = 60, views = 50, url = str ''ub''\<rparr>]
   \<and> mset [1, 0 :: nat]
     = mset [0 ..< length [\<lparr>vid = str ''a'', title = str ''A'', duration = 60, views = 100, url = str ''ua''\<rparr>,
               \<lparr>vid = str ''b'', title = str ''B'', duration = 60, views = 50, url = str ''ub''\<rparr>]]
   \<and> [Returned (str ''a'') (str ''text a'') NoError, Raised (str ''boom'')] ! 1 = Raised (str ''boom'')
   \<and> [Returned (str ''a'') (str ''text a'') NoError, Raised (str ''boom'')] ! 0
       = Returned (str ''a'') (str ''text a'') NoError
   \<and> str ''text a'' \<noteq> []
   \<and> (str ''B'', ExceptionText (str ''boom''))
       \<in> set (failures (api_get_transcripts
        [\<lparr>vid = str ''a'', title = str ''A'', duration = 60, views = 100, url = str ''ua''\<rparr>,
         \<lparr>vid = str ''b'', title = str ''B'', duration = 60, views = 50, url = str ''ub''\<rparr>]
        [Returned (str ''a'') (str ''text a'') NoError, Raised (str ''boom'')] [1, 0]))
   \<and> \<lparr>r_title = str ''A'', r_url = str ''ua'', r_views = 100, r_transcript = str ''text a''\<rparr>
       \<in> set (successes (api_get_transcripts
        [\<lparr>vid = str ''a'', title = str ''A'', duration = 60, views = 100, url = str ''ua''\<rparr>,
         \<lparr>vid = str ''b'', title = str ''B'', duration = 60, views = 50, url = str ''ub''\<rparr>]
        [Returned (str ''a'') (str ''text a'') NoError, Raised (str ''boom'')] [1, 0]))"
proof -
  let ?vs = "[\<lparr>vid = str ''a'', title = str ''A'', duration = 60, views = 100, url = str ''ua''\<rparr>,
              \<lparr>vid = str ''b'', title = str ''B'', duration = 60, views = 50, url = str ''ub''\<rparr>]"
  let ?os = "[Returned (str ''a'') (str ''text a'') NoError, Raised (str ''boom'')]"
  have h1: "length ?os = length ?vs" by simp
  have h2: "mset [1, 0 :: nat] = mset [0 ..< length ?vs]" by (simp add: upt_rec)
  have h3: "1 < length ?vs" by simp
  have h4: "?os ! 1 = Raised (str ''boom'')" by simp
  have h5: "?os ! 0 = Returned (str ''a'') (str ''text a'') NoError" by simp
  have h6: "str ''text a'' \<noteq> []" by (simp add: str_def)
  have h7: "0 < length ?vs" by simp
  note inst = batch_fault_isolation [OF h1 h2 h3 h4]
  from inst have f: "(take 40 (title (?vs ! 1)), ExceptionText (str ''boom''))
      \<in> set (failures (api_get_transcripts ?vs ?os [1, 0]))"
    by (rule conjunct1)
  from inst h5 h6 h7 have s: "\<lparr>r_title = title (?vs ! 0), r_url = url (?vs ! 0),
      r_views = views (?vs ! 0), r_transcript = str ''text a''\<rparr>
      \<in> set (successes (api_get_transcripts ?vs ?os [1, 0]))"
    by blast
  from f have f': "(str ''B'', ExceptionText (str ''boom''))
      \<in> set (failures (api_get_transcripts ?vs ?os [1, 0]))"
    by (simp add: str_def)
  from s have s': "\<lparr>r_title = str ''A'', r_url = str ''ua'', r_views = 100, r_transcript = str ''text a''\<rparr>
      \<in> set (successes (api_get_transcripts ?vs ?os [1, 0]))"
    by simp
  from h1 h2 h4 h5 h6 f' s' show ?thesis by blast
qed

text \<open>
  C2 fails in \<^verbatim>\<open>app.py\<close>. Two videos A (100 views) and B (50 views) are
  submitted in this order and B completes first: the successes and the table of contents
  list B before A. The command-line program, given the same completions, writes A
  before B.
\<close>

theorem successes_in_completion_order:
  "map r_title (successes (api_get_transcripts
      [\<lparr>vid = str ''a'', title = str ''A'', duration = 60, views = 100, url = str ''ua''\<rparr>,
       \<lparr>vid = str ''b'', title = str ''B'', duration = 60, views = 50, url = str ''ub''\<rparr>]
      [Returned (str ''a'') (str ''text a'') NoError, Returned (str ''b'') (str ''text b'') NoError]
      [1, 0]))
     = [str ''B'', str ''A'']
   \<and> (case api_get_transcripts
      [\<lparr>vid = str ''a'', title = str ''A'', duration = 60, views = 100, url = str ''ua''\<rparr>,
       \<lparr>vid = str ''b'', title = str ''B'', duration = 60, views = 50, url = str ''ub''\<rparr>]
      [Returned (str ''a'') (str ''text a'') NoError, Returned (str ''b'') (str ''text b'') NoError]
      [1, 0] of Report r \<Rightarrow> rep_contents r | _ \<Rightarrow> [])
     = [(1, 50, str ''B''), (2, 100, str ''A'')]
   \<and> map fst (main_output
      [\<lparr>vid = str ''a'', title = str ''A'', duration = 60, views = 100, url = str ''ua''\<rparr>,
       \<lparr>vid = str ''b'', title = str ''B'', duration = 60, views = 50, url = str ''ub''\<rparr>]
      (download_transcripts
         [(\<lparr>vid = str ''b'', title = str ''B'', duration = 60, views = 50, url = str ''ub''\<rparr>,
           Inr (str ''b'', str ''text b'')),
          (\<lparr>vid = str ''a'', title = str ''A'', duration = 60, views = 100, url = str ''ua''\<rparr>,
           Inr (str ''a'', str ''text a''))]
         Map.empty))
     = [str ''A'', str ''B'']"
  by (simp add: api_get_transcripts_def enumerate1_def main_output_def str_def upt_rec)


end
